theory Spec2Isabelle
  imports Complex_Main "HOL-Library.AList"
begin

section \<open>JavaScript values used by the services\<close>

subsection \<open>Numbers\<close>

text \<open>
  A JavaScript number is an IEEE double. The model keeps the finite values as exact
  rationals and adds the three non-finite values, so that a division by zero is the value
  the program gets (\<open>0 / 0\<close> is \<open>NaN\<close>, \<open>x / 0\<close> is an infinity) and not HOL's
  \<open>x / 0 = 0\<close>. Rounding, overflow and the sign of zero are not modelled: every zero is
  \<open>+0\<close>, which is what the divisors of this code are (array lengths and a sum started
  at \<open>0\<close>).
\<close>

datatype jsnum = Fin rat | NaN | PInf | NInf

instantiation jsnum :: comm_monoid_add
begin

definition zero_jsnum :: jsnum where
  "zero_jsnum = Fin 0"

fun plus_jsnum :: "jsnum \<Rightarrow> jsnum \<Rightarrow> jsnum" where
  "plus_jsnum NaN b = NaN"
| "plus_jsnum (Fin a) NaN = NaN"
| "plus_jsnum PInf NaN = NaN"
| "plus_jsnum NInf NaN = NaN"
| "plus_jsnum (Fin a) (Fin b) = Fin (a + b)"
| "plus_jsnum (Fin a) PInf = PInf"
| "plus_jsnum (Fin a) NInf = NInf"
| "plus_jsnum PInf (Fin b) = PInf"
| "plus_jsnum PInf PInf = PInf"
| "plus_jsnum PInf NInf = NaN"
| "plus_jsnum NInf (Fin b) = NInf"
| "plus_jsnum NInf PInf = NaN"
| "plus_jsnum NInf NInf = NInf"

instance
proof
  show "0 + x = x" for x :: jsnum
    by (cases x) (simp_all add: zero_jsnum_def)
  show "x + y = y + x" for x y :: jsnum
    by (cases x; cases y) simp_all
  show "x + y + z = x + (y + z)" for x y z :: jsnum
    by (cases x; cases y; cases z) simp_all
qed

end

fun jneg :: "jsnum \<Rightarrow> jsnum" where
  "jneg (Fin a) = Fin (- a)"
| "jneg NaN = NaN"
| "jneg PInf = NInf"
| "jneg NInf = PInf"

definition jsub :: "jsnum \<Rightarrow> jsnum \<Rightarrow> jsnum" where
  "jsub a b = a + jneg b"

fun jmul :: "jsnum \<Rightarrow> jsnum \<Rightarrow> jsnum" where
  "jmul NaN b = NaN"
| "jmul (Fin a) NaN = NaN"
| "jmul PInf NaN = NaN"
| "jmul NInf NaN = NaN"
| "jmul (Fin a) (Fin b) = Fin (a * b)"
| "jmul (Fin a) PInf = (if a = 0 then NaN else if 0 < a then PInf else NInf)"
| "jmul (Fin a) NInf = (if a = 0 then NaN else if 0 < a then NInf else PInf)"
| "jmul PInf (Fin b) = (if b = 0 then NaN else if 0 < b then PInf else NInf)"
| "jmul NInf (Fin b) = (if b = 0 then NaN else if 0 < b then NInf else PInf)"
| "jmul PInf PInf = PInf"
| "jmul PInf NInf = NInf"
| "jmul NInf PInf = NInf"
| "jmul NInf NInf = PInf"

fun jdiv :: "jsnum \<Rightarrow> jsnum \<Rightarrow> jsnum" where
  "jdiv NaN b = NaN"
| "jdiv (Fin a) NaN = NaN"
| "jdiv PInf NaN = NaN"
| "jdiv NInf NaN = NaN"
| "jdiv (Fin a) (Fin b) =
     (if b \<noteq> 0 then Fin (a / b)
      else if a = 0 then NaN else if 0 < a then PInf else NInf)"
| "jdiv (Fin a) PInf = Fin 0"
| "jdiv (Fin a) NInf = Fin 0"
| "jdiv PInf (Fin b) = (if 0 \<le> b then PInf else NInf)"
| "jdiv NInf (Fin b) = (if 0 \<le> b then NInf else PInf)"
| "jdiv PInf PInf = NaN"
| "jdiv PInf NInf = NaN"
| "jdiv NInf PInf = NaN"
| "jdiv NInf NInf = NaN"

text \<open>\<open>Math.round\<close>: the nearest integer, a half rounded up.\<close>

fun Math_round :: "jsnum \<Rightarrow> jsnum" where
  "Math_round (Fin a) = Fin (of_int \<lfloor>a + 1 / 2\<rfloor>)"
| "Math_round NaN = NaN"
| "Math_round PInf = PInf"
| "Math_round NInf = NInf"

text \<open>The length of an array, as a number.\<close>

definition num_of_nat :: "nat \<Rightarrow> jsnum" where
  "num_of_nat n = Fin (of_nat n)"

text \<open>\<open>xs.reduce((a, b) => a + b, 0)\<close>.\<close>

definition reduce_add :: "jsnum list \<Rightarrow> jsnum" where
  "reduce_add xs = foldl (+) 0 xs"

subsection \<open>Strings\<close>

text \<open>
  \<open>String.prototype.toLowerCase\<close> on the ASCII letters; a character outside
  \<open>A\<close>..\<open>Z\<close> is kept. The theorems below use no other property of it than being
  a function.
\<close>

definition lower_char :: "char \<Rightarrow> char" where
  "lower_char c =
     (let n = (of_char c :: nat) in if 65 \<le> n \<and> n \<le> 90 then char_of (n + 32) else c)"

definition toLowerCase :: "string \<Rightarrow> string" where
  "toLowerCase s = map lower_char s"

subsection \<open>Map\<close>

text \<open>
  A \<open>Map\<close> keeps its keys in the order of their first insertion, which is the order
  \<open>keys()\<close> and \<open>values()\<close> iterate in: an association list. \<open>set\<close> replaces the value
  of a present key where it stands and puts a new key last.
\<close>

type_synonym ('k, 'v) jsmap = "('k \<times> 'v) list"

definition Map_has :: "('k, 'v) jsmap \<Rightarrow> 'k \<Rightarrow> bool" where
  "Map_has m k = (map_of m k \<noteq> None)"

definition Map_get :: "('k, 'v) jsmap \<Rightarrow> 'k \<Rightarrow> 'v option" where
  "Map_get m k = map_of m k"

definition Map_set :: "('k, 'v) jsmap \<Rightarrow> 'k \<Rightarrow> 'v \<Rightarrow> ('k, 'v) jsmap" where
  "Map_set m k v = AList.update k v m"

definition Map_keys :: "('k, 'v) jsmap \<Rightarrow> 'k list" where
  "Map_keys m = map fst m"

definition Map_values :: "('k, 'v) jsmap \<Rightarrow> 'v list" where
  "Map_values m = map snd m"

subsection \<open>Array.prototype.sort\<close>

text \<open>
  \<open>sort\<close> is stable. With a comparator that orders the elements consistently the result
  is the one of a stable insertion sort: an element moves behind a later one only when
  the comparator of the two is positive. A comparator value \<open>NaN\<close> counts as \<open>0\<close>.
  (For an inconsistent comparator the language leaves the order to the implementation;
  no statement below about an order is made for that case.)
\<close>

fun positive :: "jsnum \<Rightarrow> bool" where
  "positive (Fin a) = (0 < a)"
| "positive PInf = True"
| "positive NaN = False"
| "positive NInf = False"

fun sort_insert :: "('a \<Rightarrow> 'a \<Rightarrow> jsnum) \<Rightarrow> 'a \<Rightarrow> 'a list \<Rightarrow> 'a list" where
  "sort_insert cmp x [] = [x]"
| "sort_insert cmp x (y # ys) =
     (if positive (cmp x y) then y # sort_insert cmp x ys else x # y # ys)"

fun Array_sort :: "('a \<Rightarrow> 'a \<Rightarrow> jsnum) \<Rightarrow> 'a list \<Rightarrow> 'a list" where
  "Array_sort cmp [] = []"
| "Array_sort cmp (x # xs) = sort_insert cmp x (Array_sort cmp xs)"

text \<open>\<open>xs.slice(0, n)\<close> for a count \<open>n\<close>.\<close>

definition slice0 :: "nat \<Rightarrow> 'a list \<Rightarrow> 'a list" where
  "slice0 n xs = take n xs"

subsection \<open>Network requests and errors\<close>

text \<open>
  The requests a call sends are returned with its value, in the order they are issued.
  A thrown \<open>Error\<close> is the left injection of the result.
\<close>

datatype request = SpotifyRequest string | LastfmRequest string

datatype error = Error string

section \<open>lastfmService\<close>

text \<open>
  \<open>services/lastfmService.js\<close>; the line numbers below are those of this file.
\<close>

record similarArtist =
  s_name :: string
  s_match :: jsnum
  s_url :: string

text \<open>
  The Last.fm endpoint: for an artist name, either the list of similar artists as
  \<open>getSimilarArtists\<close> normalises it (\<open>match\<close> already through \<open>parseFloat\<close>), or
  \<open>None\<close> when the request or the reading of its answer throws. The answer is taken
  to depend on the name only: two lookups of one name within a call give the same list.
\<close>

type_synonym lastfm = "string \<Rightarrow> similarArtist list option"

definition getSimilarArtists :: "lastfm \<Rightarrow> string \<Rightarrow> similarArtist list \<times> request list" where
  "getSimilarArtists api artistName =
     ((case api artistName of Some similarArtists \<Rightarrow> similarArtists | None \<Rightarrow> []),
      [LastfmRequest artistName])"

text \<open>An element of \<open>artistsWithWeights\<close>: a string, or an object \<open>{ name, weight }\<close>.\<close>

datatype artistArg = Str string | Obj string jsnum

record weightedArtist =
  wa_name :: string
  wa_weight :: jsnum

record artistData =
  d_frequency :: nat
  d_weightedScoreSum :: jsnum
  d_scores :: "jsnum list"

record aggregatedArtist =
  name :: string
  frequency :: nat
  averageMatch :: jsnum
  combinedScore :: jsnum

text \<open>Lines 58-60: strings get the weight \<open>1 / artistsWithWeights.length\<close>.\<close>

definition normalizeArtists :: "artistArg list \<Rightarrow> weightedArtist list" where
  "normalizeArtists artistsWithWeights =
     map (\<lambda>a. case a of
            Str s \<Rightarrow> \<lparr>wa_name = s,
                      wa_weight = jdiv (Fin 1) (num_of_nat (length artistsWithWeights))\<rparr>
          | Obj n w \<Rightarrow> \<lparr>wa_name = n, wa_weight = w\<rparr>)
       artistsWithWeights"

text \<open>
  Lines 72-88: the body of the inner \<open>forEach\<close>, for one similar artist. The entry read
  by \<open>get\<close> is always there (the \<open>None\<close> case is not reached), and its mutation is
  written as a \<open>set\<close> of the changed entry, which keeps the place of the key.
\<close>

definition accumulate :: "jsnum \<Rightarrow> (string, artistData) jsmap \<Rightarrow> similarArtist
    \<Rightarrow> (string, artistData) jsmap" where
  "accumulate seedWeight artistData similar =
     (let name = s_name similar;
          artistData1 =
            (if \<not> Map_has artistData name
             then Map_set artistData name
                    \<lparr>d_frequency = 0, d_weightedScoreSum = 0, d_scores = []\<rparr>
             else artistData)
      in case Map_get artistData1 name of
           None \<Rightarrow> artistData1
         | Some data \<Rightarrow>
             Map_set artistData1 name
               \<lparr>d_frequency = d_frequency data + 1,
                d_weightedScoreSum = d_weightedScoreSum data + jmul (s_match similar) seedWeight,
                d_scores = d_scores data @ [s_match similar]\<rparr>)"

text \<open>
  Lines 67-105, on the seed artists paired with the result of their lookups (the source
  pairs them by index, and \<open>Promise.all\<close> gives one result per artist).
\<close>

definition accumulateAll :: "(weightedArtist \<times> similarArtist list) list
    \<Rightarrow> (string, artistData) jsmap" where
  "accumulateAll results =
     foldl (\<lambda>artistData (artist, similarArtists).
              foldl (accumulate (wa_weight artist)) artistData similarArtists)
       [] results"

definition aggregatedOf :: "string \<times> artistData \<Rightarrow> aggregatedArtist" where
  "aggregatedOf = (\<lambda>(n, data).
     \<lparr>name = n,
      frequency = d_frequency data,
      averageMatch = jdiv (reduce_add (d_scores data)) (num_of_nat (length (d_scores data))),
      combinedScore = d_weightedScoreSum data\<rparr>)"

definition byCombinedScore :: "aggregatedArtist \<Rightarrow> aggregatedArtist \<Rightarrow> jsnum" where
  "byCombinedScore a b = jsub (combinedScore b) (combinedScore a)"

definition aggregate :: "(weightedArtist \<times> similarArtist list) list \<Rightarrow> aggregatedArtist list" where
  "aggregate results = Array_sort byCombinedScore (map aggregatedOf (accumulateAll results))"

definition getSimilarArtistsForMultiple :: "lastfm \<Rightarrow> artistArg list
    \<Rightarrow> aggregatedArtist list \<times> request list" where
  "getSimilarArtistsForMultiple api artistsWithWeights =
     (let artists = normalizeArtists artistsWithWeights;
          promises = map (\<lambda>a. getSimilarArtists api (wa_name a)) artists;
          results = map fst promises
      in (aggregate (zip artists results), concat (map snd promises)))"

subsection \<open>The earlier version of the aggregation\<close>

text \<open>
  The service before weights were introduced (the other copy of \<open>lastfmService.js\<close>, lines
  52-93): it takes the artist names, flattens the results and keeps two maps, one of counts
  and one of score lists.
\<close>

definition count_old :: "(string, nat) jsmap \<times> (string, jsnum list) jsmap \<Rightarrow> similarArtist
    \<Rightarrow> (string, nat) jsmap \<times> (string, jsnum list) jsmap" where
  "count_old = (\<lambda>(artistFrequency, artistScores) artist.
     (let name = s_name artist;
          (artistFrequency1, artistScores1) =
            (if \<not> Map_has artistFrequency name
             then (Map_set artistFrequency name 0, Map_set artistScores name [])
             else (artistFrequency, artistScores))
      in case (Map_get artistFrequency1 name, Map_get artistScores1 name) of
           (Some f, Some scores) \<Rightarrow>
             (Map_set artistFrequency1 name (f + 1),
              Map_set artistScores1 name (scores @ [s_match artist]))
         | _ \<Rightarrow> (artistFrequency1, artistScores1)))"

definition aggregatedOf_old :: "(string, nat) jsmap \<Rightarrow> (string, jsnum list) jsmap \<Rightarrow> string
    \<Rightarrow> aggregatedArtist" where
  "aggregatedOf_old artistFrequency artistScores n =
     (let freq = (case Map_get artistFrequency n of Some f \<Rightarrow> f | None \<Rightarrow> 0);
          scores = (case Map_get artistScores n of Some l \<Rightarrow> l | None \<Rightarrow> []);
          avgScore = jdiv (reduce_add scores) (num_of_nat (length scores))
      in \<lparr>name = n,
          frequency = freq,
          averageMatch = avgScore,
          combinedScore = jmul (num_of_nat freq) avgScore\<rparr>)"

definition aggregate_old :: "similarArtist list list \<Rightarrow> aggregatedArtist list" where
  "aggregate_old results =
     (let allSimilarArtists = concat results;
          (artistFrequency, artistScores) = foldl count_old ([], []) allSimilarArtists
      in Array_sort byCombinedScore
           (map (aggregatedOf_old artistFrequency artistScores) (Map_keys artistFrequency)))"

definition getSimilarArtistsForMultiple_old :: "lastfm \<Rightarrow> string list
    \<Rightarrow> aggregatedArtist list \<times> request list" where
  "getSimilarArtistsForMultiple_old api artistNames =
     (let promises = map (getSimilarArtists api) artistNames;
          results = map fst promises
      in (aggregate_old results, concat (map snd promises)))"

section \<open>spotifyService\<close>

text \<open>\<open>services/spotifyService.js\<close>.\<close>

record artist =
  a_id :: string
  a_name :: string

record track =
  t_name :: string
  t_artists :: "artist list"

text \<open>
  \<open>getPlaylistTracks\<close>: the tracks of a playlist, or \<open>None\<close> when the token or the
  playlist cannot be fetched; the service then throws
  \<open>Error('Failed to fetch playlist from Spotify')\<close>. The endpoint is given the playlist
  reference as it is passed (the extraction of the playlist id from a URL is part of it),
  and its answer is taken to depend on that reference only.
\<close>

type_synonym spotify = "string \<Rightarrow> track list option"

definition getPlaylistTracks :: "spotify \<Rightarrow> string \<Rightarrow> (error + track list) \<times> request list" where
  "getPlaylistTracks api playlistUrl =
     ((case api playlistUrl of
         Some tracks \<Rightarrow> Inr tracks
       | None \<Rightarrow> Inl (Error ''Failed to fetch playlist from Spotify'')),
      [SpotifyRequest playlistUrl])"

definition addArtist :: "(string, artist) jsmap \<Rightarrow> artist \<Rightarrow> (string, artist) jsmap" where
  "addArtist artistMap a =
     (if \<not> Map_has artistMap (a_id a) then Map_set artistMap (a_id a) a else artistMap)"

definition getPlaylistArtists :: "spotify \<Rightarrow> string \<Rightarrow> (error + artist list) \<times> request list" where
  "getPlaylistArtists api playlistUrl =
     (case getPlaylistTracks api playlistUrl of
        (Inl e, reqs) \<Rightarrow> (Inl e, reqs)
      | (Inr tracks, reqs) \<Rightarrow>
          (Inr (Map_values
                  (foldl (\<lambda>artistMap t. foldl addArtist artistMap (t_artists t)) [] tracks)),
           reqs))"

section \<open>recommendationEngine\<close>

text \<open>
  \<open>services/recommendationEngine.js\<close>, in the version with playlist weights; the line
  numbers below are those of this file. An option is \<open>None\<close> when the caller leaves it
  undefined, and a count otherwise.
\<close>

record options =
  limit :: "nat option"
  minFrequency :: "nat option"

record 'a recommendations =
  seedArtists :: "'a list"
  recommendations :: "aggregatedArtist list"
  totalFound :: nat

record playlistWeight =
  pw_url :: string
  pw_weight :: jsnum

record 'a weightedRecommendations = "'a recommendations" +
  playlistWeights :: "playlistWeight list"

text \<open>Lines 40-45 and 116-121: the filter on the aggregated artists.\<close>

definition keep :: "string list \<Rightarrow> nat \<Rightarrow> aggregatedArtist \<Rightarrow> bool" where
  "keep seedNamesLower k a =
     (let artistNameLower = toLowerCase (name a)
      in artistNameLower \<notin> set seedNamesLower \<and> k \<le> frequency a)"

subsection \<open>One playlist\<close>

definition getRecommendations :: "spotify \<Rightarrow> lastfm \<Rightarrow> string \<Rightarrow> options
    \<Rightarrow> (error + artist recommendations) \<times> request list" where
  "getRecommendations sp fm playlistUrl opts =
     (let limit' = (case limit opts of None \<Rightarrow> 20 | Some l \<Rightarrow> l);
          minFrequency' = (case minFrequency opts of None \<Rightarrow> 1 | Some k \<Rightarrow> k)
      in case getPlaylistArtists sp playlistUrl of
           (Inl e, reqs) \<Rightarrow> (Inl e, reqs)
         | (Inr seeds, reqs) \<Rightarrow>
             (let seedArtistNames = map a_name seeds;
                  (similarArtists, reqs') =
                     getSimilarArtistsForMultiple fm (map Str seedArtistNames);
                  seedNamesLower = map toLowerCase seedArtistNames;
                  filtered = filter (keep seedNamesLower minFrequency') similarArtists
              in (Inr \<lparr>seedArtists = seeds,
                       recommendations = slice0 limit' filtered,
                       totalFound = length filtered\<rparr>,
                  reqs @ reqs')))"

subsection \<open>Several playlists, with weights\<close>

text \<open>An element of \<open>playlists\<close>: a URL, or an object \<open>{ url, weight }\<close>.\<close>

datatype playlistRef = Url string | Weighted string jsnum

record playlist =
  p_url :: string
  p_weight :: jsnum

record seedArtist = artist +
  weight :: jsnum

text \<open>Lines 71-76.\<close>

definition playlistsWithWeights :: "playlistRef list \<Rightarrow> playlist list" where
  "playlistsWithWeights playlists =
     map (\<lambda>p. case p of
            Url s \<Rightarrow> \<lparr>p_url = s, p_weight = jdiv (Fin 100) (num_of_nat (length playlists))\<rparr>
          | Weighted u w \<Rightarrow> \<lparr>p_url = u, p_weight = w\<rparr>)
       playlists"

text \<open>
  Lines 79-82. The objects of the input are distinct objects (as in a parsed request
  body), so dividing the weight of one does not touch another.
\<close>

definition totalWeight :: "playlist list \<Rightarrow> jsnum" where
  "totalWeight ps = foldl (\<lambda>sum p. sum + p_weight p) 0 ps"

definition normalizeWeights :: "playlist list \<Rightarrow> playlist list" where
  "normalizeWeights ps = map (\<lambda>p. p\<lparr>p_weight := jdiv (p_weight p) (totalWeight ps)\<rparr>) ps"

text \<open>Lines 92-102: one artist of one playlist.\<close>

definition addSeed :: "jsnum \<Rightarrow> (string, seedArtist) jsmap \<Rightarrow> artist
    \<Rightarrow> (string, seedArtist) jsmap" where
  "addSeed playlistWeight artistWeightMap a =
     (case Map_get artistWeightMap (a_id a) of
        Some seed \<Rightarrow>
          Map_set artistWeightMap (a_id a) (seed\<lparr>weight := weight seed + playlistWeight\<rparr>)
      | None \<Rightarrow>
          Map_set artistWeightMap (a_id a)
            \<lparr>a_id = a_id a, a_name = a_name a, weight = playlistWeight\<rparr>)"

text \<open>
  Lines 86-103: the playlists are fetched one after the other, and the first that cannot
  be fetched ends the call with its error.
\<close>

fun collectSeeds :: "spotify \<Rightarrow> (string, seedArtist) jsmap \<Rightarrow> playlist list
    \<Rightarrow> (error + (string, seedArtist) jsmap) \<times> request list" where
  "collectSeeds sp artistWeightMap [] = (Inr artistWeightMap, [])"
| "collectSeeds sp artistWeightMap (p # ps) =
     (case getPlaylistArtists sp (p_url p) of
        (Inl e, reqs) \<Rightarrow> (Inl e, reqs)
      | (Inr artists, reqs) \<Rightarrow>
          (case collectSeeds sp (foldl (addSeed (p_weight p)) artistWeightMap artists) ps of
             (r, reqs') \<Rightarrow> (r, reqs @ reqs')))"

text \<open>Lines 71-105: the normalised playlists and the seed artists with their weights.\<close>

definition seedExtraction :: "spotify \<Rightarrow> playlistRef list
    \<Rightarrow> (error + playlist list \<times> seedArtist list) \<times> request list" where
  "seedExtraction sp playlists =
     (let ps = normalizeWeights (playlistsWithWeights playlists)
      in case collectSeeds sp [] ps of
           (Inl e, reqs) \<Rightarrow> (Inl e, reqs)
         | (Inr artistWeightMap, reqs) \<Rightarrow> (Inr (ps, Map_values artistWeightMap), reqs))"

definition getRecommendationsFromMultiple :: "spotify \<Rightarrow> lastfm \<Rightarrow> playlistRef list \<Rightarrow> options
    \<Rightarrow> (error + artist weightedRecommendations) \<times> request list" where
  "getRecommendationsFromMultiple sp fm playlists opts =
     (case seedExtraction sp playlists of
        (Inl e, reqs) \<Rightarrow> (Inl e, reqs)
      | (Inr (ps, uniqueArtists), reqs) \<Rightarrow>
          (let weightedArtists = map (\<lambda>a. Obj (a_name a) (weight a)) uniqueArtists;
               (similarArtists, reqs') = getSimilarArtistsForMultiple fm weightedArtists;
               seedNamesLower = map (\<lambda>a. toLowerCase (a_name a)) uniqueArtists;
               minFrequency' = (case minFrequency opts of None \<Rightarrow> 1 | Some k \<Rightarrow>
                                  if k = 0 then 1 else k);
               limit' = (case limit opts of None \<Rightarrow> 20 | Some l \<Rightarrow> if l = 0 then 20 else l);
               filtered = filter (keep seedNamesLower minFrequency') similarArtists
           in (Inr \<lparr>seedArtists = map (\<lambda>a. \<lparr>a_id = a_id a, a_name = a_name a\<rparr>) uniqueArtists,
                    recommendations = slice0 limit' filtered,
                    totalFound = length filtered,
                    playlistWeights =
                      map (\<lambda>p. \<lparr>pw_url = p_url p,
                                 pw_weight = Math_round (jmul (p_weight p) (Fin 100))\<rparr>) ps\<rparr>,
               reqs @ reqs')))"

section \<open>The route \<open>POST /recommendations/multiple\<close>\<close>

text \<open>
  The fields of the request body that the handler reads. An array field is \<open>None\<close> when
  it is absent or not an array.
\<close>

record body =
  b_playlistUrls :: "string list option"
  b_playlists :: "playlistRef list option"
  b_limit :: "nat option"
  b_minFrequency :: "nat option"

datatype response =
    Json "artist weightedRecommendations"
  | Status400 string
  | Status500 string

definition nonEmptyArray :: "'a list option \<Rightarrow> bool" where
  "nonEmptyArray field = (case field of Some xs \<Rightarrow> 0 < length xs | None \<Rightarrow> False)"

definition post_recommendations_multiple :: "spotify \<Rightarrow> lastfm \<Rightarrow> body
    \<Rightarrow> response \<times> request list" where
  "post_recommendations_multiple sp fm b =
     (let opts = \<lparr>limit = b_limit b, minFrequency = b_minFrequency b\<rparr>;
          playlistInput =
            (if nonEmptyArray (b_playlists b) then b_playlists b
             else if nonEmptyArray (b_playlistUrls b) then map_option (map Url) (b_playlistUrls b)
             else None)
      in case playlistInput of
           None \<Rightarrow>
             (Status400 ''Either playlistUrls array or playlists array with weights is required'', [])
         | Some input \<Rightarrow>
             (case getRecommendationsFromMultiple sp fm input opts of
                (Inr result, reqs) \<Rightarrow> (Json result, reqs)
              | (Inl (Error message), reqs) \<Rightarrow>
                  (Status500 (if message = [] then ''Failed to generate recommendations''
                              else message), reqs)))"

section \<open>Notions used in the statements\<close>

subsection \<open>Aggregation\<close>

text \<open>
  The (seed, candidate) pairs observed in the results of the lookups, in the order the
  two nested loops visit them, and those of one candidate name.
\<close>

definition observations :: "(weightedArtist \<times> similarArtist list) list
    \<Rightarrow> (weightedArtist \<times> similarArtist) list" where
  "observations results =
     concat (map (\<lambda>(seed, similarArtists). map (Pair seed) similarArtists) results)"

definition observed :: "(weightedArtist \<times> similarArtist list) list \<Rightarrow> string
    \<Rightarrow> (weightedArtist \<times> similarArtist) list" where
  "observed results n = filter (\<lambda>(seed, s). s_name s = n) (observations results)"

text \<open>One pass of the loop body, on the entry of the candidate and on the whole map.\<close>

definition bump :: "artistData \<Rightarrow> weightedArtist \<times> similarArtist \<Rightarrow> artistData" where
  "bump data = (\<lambda>(seed, similar).
     \<lparr>d_frequency = d_frequency data + 1,
      d_weightedScoreSum = d_weightedScoreSum data + jmul (s_match similar) (wa_weight seed),
      d_scores = d_scores data @ [s_match similar]\<rparr>)"

definition fresh :: artistData where
  "fresh = \<lparr>d_frequency = 0, d_weightedScoreSum = 0, d_scores = []\<rparr>"

definition step :: "(string, artistData) jsmap \<Rightarrow> weightedArtist \<times> similarArtist
    \<Rightarrow> (string, artistData) jsmap" where
  "step m = (\<lambda>(seed, s). accumulate (wa_weight seed) m s)"



subsection \<open>The earlier aggregation\<close>





subsection \<open>Seed extraction\<close>

text \<open>The artists of a playlist that can be fetched (none for one that cannot).\<close>

definition playlistArtists :: "spotify \<Rightarrow> string \<Rightarrow> artist list" where
  "playlistArtists sp playlistUrl =
     (case fst (getPlaylistArtists sp playlistUrl) of Inr artists \<Rightarrow> artists | Inl e \<Rightarrow> [])"

text \<open>
  The weights of the playlists that contain the artist \<open>i\<close>, in the order of the
  playlists.
\<close>

definition contributions :: "spotify \<Rightarrow> playlist list \<Rightarrow> string \<Rightarrow> jsnum list" where
  "contributions sp ps i =
     map p_weight (filter (\<lambda>p. i \<in> a_id ` set (playlistArtists sp (p_url p))) ps)"

definition seedStep :: "(string, seedArtist) jsmap \<Rightarrow> artist \<times> jsnum
    \<Rightarrow> (string, seedArtist) jsmap" where
  "seedStep m = (\<lambda>(a, w). addSeed w m a)"

definition seedObservations :: "spotify \<Rightarrow> playlist list \<Rightarrow> (artist \<times> jsnum) list" where
  "seedObservations sp ps =
     concat (map (\<lambda>p. map (\<lambda>a. (a, p_weight p)) (playlistArtists sp (p_url p))) ps)"

definition weightOf :: "(string, seedArtist) jsmap \<Rightarrow> string \<Rightarrow> jsnum" where
  "weightOf m i = (case map_of m i of None \<Rightarrow> 0 | Some seed \<Rightarrow> weight seed)"

text \<open>A map from artist ids whose entries carry their own key.\<close>

definition keyed :: "(string, 'a artist_scheme) jsmap \<Rightarrow> bool" where
  "keyed m = (distinct (map fst m) \<and> (\<forall>(k, v) \<in> set m. a_id v = k))"




subsection \<open>Recommendations\<close>

text \<open>
  The artist names of the similarity lookups among the requests of a call.
\<close>

definition lookups :: "request list \<Rightarrow> string list" where
  "lookups reqs =
     concat (map (\<lambda>r. case r of LastfmRequest n \<Rightarrow> [n] | SpotifyRequest u \<Rightarrow> []) reqs)"

text \<open>
  The values of \<open>options.minFrequency || 1\<close> and \<open>options.limit || 20\<close>.
\<close>

definition threshold :: "options \<Rightarrow> nat" where
  "threshold opts = (case minFrequency opts of None \<Rightarrow> 1 | Some k \<Rightarrow> if k = 0 then 1 else k)"

definition bound :: "options \<Rightarrow> nat" where
  "bound opts = (case limit opts of None \<Rightarrow> 20 | Some l \<Rightarrow> if l = 0 then 20 else l)"

text \<open>
  The aggregated candidates of the seed artists: what \<open>getSimilarArtistsForMultiple\<close>
  returns to \<open>getRecommendationsFromMultiple\<close> and to \<open>getRecommendations\<close>.
\<close>

definition candidates :: "lastfm \<Rightarrow> seedArtist list \<Rightarrow> aggregatedArtist list" where
  "candidates fm seeds =
     fst (getSimilarArtistsForMultiple fm (map (\<lambda>a. Obj (a_name a) (weight a)) seeds))"

definition candidates1 :: "lastfm \<Rightarrow> artist list \<Rightarrow> aggregatedArtist list" where
  "candidates1 fm seeds = fst (getSimilarArtistsForMultiple fm (map Str (map a_name seeds)))"

subsection \<open>Examples\<close>

text \<open>
  Two seeds \<open>A\<close> and \<open>B\<close> of weight one half; the lookup of \<open>A\<close> gives \<open>X\<close> (0.8) and
  \<open>Y\<close> (0.2), the lookup of \<open>B\<close> gives \<open>X\<close> (0.6).
\<close>

definition lastfm_example :: lastfm where
  "lastfm_example artistName =
     (if artistName = ''A'' then
        Some [\<lparr>s_name = ''X'', s_match = Fin (8 / 10), s_url = ''''\<rparr>,
              \<lparr>s_name = ''Y'', s_match = Fin (2 / 10), s_url = ''''\<rparr>]
      else if artistName = ''B'' then
        Some [\<lparr>s_name = ''X'', s_match = Fin (6 / 10), s_url = ''''\<rparr>]
      else None)"

definition results_example :: "(weightedArtist \<times> similarArtist list) list" where
  "results_example =
     [(\<lparr>wa_name = ''A'', wa_weight = Fin (1 / 2)\<rparr>,
       [\<lparr>s_name = ''X'', s_match = Fin (8 / 10), s_url = ''''\<rparr>,
        \<lparr>s_name = ''Y'', s_match = Fin (2 / 10), s_url = ''''\<rparr>]),
      (\<lparr>wa_name = ''B'', wa_weight = Fin (1 / 2)\<rparr>,
       [\<lparr>s_name = ''X'', s_match = Fin (6 / 10), s_url = ''''\<rparr>])]"


text \<open>
  A lookup that returns the same artist under two spellings.
\<close>

definition lastfm_case_example :: lastfm where
  "lastfm_case_example artistName =
     (if artistName = ''A'' then
        Some [\<lparr>s_name = ''Moby'', s_match = Fin (9 / 10), s_url = ''''\<rparr>,
              \<lparr>s_name = ''MOBY'', s_match = Fin (8 / 10), s_url = ''''\<rparr>]
      else None)"

text \<open>
  Lookups that return a seed artist (\<open>b\<close>, for the seed \<open>B\<close>) among the candidates.
\<close>

definition lastfm_self_example :: lastfm where
  "lastfm_self_example artistName =
     (if artistName = ''A'' then
        Some [\<lparr>s_name = ''b'', s_match = Fin (9 / 10), s_url = ''''\<rparr>,
              \<lparr>s_name = ''X'', s_match = Fin (8 / 10), s_url = ''''\<rparr>]
      else if artistName = ''B'' then
        Some [\<lparr>s_name = ''X'', s_match = Fin (6 / 10), s_url = ''''\<rparr>,
              \<lparr>s_name = ''Y'', s_match = Fin (5 / 10), s_url = ''''\<rparr>]
      else None)"

text \<open>
  Playlist \<open>p1\<close> has the artists \<open>A\<close> and \<open>B\<close>, playlist \<open>p2\<close> has \<open>A\<close>, and playlist
  \<open>p3\<close> has two artists of different ids that are both called \<open>X\<close>.
\<close>

definition spotify_example :: spotify where
  "spotify_example playlistUrl =
     (if playlistUrl = ''p1'' then
        Some [\<lparr>t_name = ''t1'',
               t_artists = [\<lparr>a_id = ''1'', a_name = ''A''\<rparr>, \<lparr>a_id = ''2'', a_name = ''B''\<rparr>]\<rparr>]
      else if playlistUrl = ''p2'' then
        Some [\<lparr>t_name = ''t2'', t_artists = [\<lparr>a_id = ''1'', a_name = ''A''\<rparr>]\<rparr>]
      else if playlistUrl = ''p3'' then
        Some [\<lparr>t_name = ''t3'',
               t_artists = [\<lparr>a_id = ''3'', a_name = ''X''\<rparr>, \<lparr>a_id = ''4'', a_name = ''X''\<rparr>]\<rparr>]
      else None)"

definition no_options :: options where
  "no_options = \<lparr>limit = None, minFrequency = None\<rparr>"

definition options_example :: options where
  "options_example = \<lparr>limit = Some 1, minFrequency = Some 1\<rparr>"

section \<open>Properties of the aggregation\<close>

subsection \<open>The map of the candidates\<close>

lemma accumulate_eq:
  "accumulate (wa_weight seed) m s =
     AList.update (s_name s) (bump (case map_of m (s_name s) of None \<Rightarrow> fresh | Some d \<Rightarrow> d) (seed, s)) m"
  by (cases "map_of m (s_name s)")
     (simp_all add: accumulate_def Map_has_def Map_get_def Map_set_def Let_def bump_def fresh_def
        update_conv')

lemma accumulateAll_obs:
  "foldl (\<lambda>artistData (artist, similarArtists).
              foldl (accumulate (wa_weight artist)) artistData similarArtists) m results
   = foldl (\<lambda>m (seed, s). accumulate (wa_weight seed) m s) m (observations results)"
proof (induction results arbitrary: m)
  case Nil
  show ?case by (simp add: observations_def)
next
  case (Cons r rs)
  obtain seed sims where r: "r = (seed, sims)" by (cases r)
  have inner: "foldl (accumulate (wa_weight seed)) m' sims
      = foldl (\<lambda>m (seed, s). accumulate (wa_weight seed) m s) m' (map (Pair seed) sims)" for m'
    by (induction sims arbitrary: m') simp_all
  show ?case
    using Cons.IH by (simp add: r observations_def inner)
qed

lemma step_keys: "fst ` set (step m ob) = insert (s_name (snd ob)) (fst ` set m)"
  by (cases ob) (simp add: step_def accumulate_eq dom_update)

lemma step_distinct: "distinct (map fst m) \<Longrightarrow> distinct (map fst (step m o1))"
  by (cases o1) (simp add: step_def accumulate_eq distinct_update)

lemma step_map_of:
  "map_of (step m (seed, s)) n =
     (if s_name s = n then Some (bump (case map_of m n of None \<Rightarrow> fresh | Some d \<Rightarrow> d) (seed, s))
      else map_of m n)"
  by (simp add: step_def accumulate_eq update_conv')

lemma foldl_step_keys:
  "fst ` set (foldl step m obs) = fst ` set m \<union> (s_name \<circ> snd) ` set obs"
  by (induction obs arbitrary: m) (auto simp: step_keys)

lemma foldl_step_distinct:
  "distinct (map fst m) \<Longrightarrow> distinct (map fst (foldl step m obs))"
  by (induction obs arbitrary: m) (simp_all add: step_distinct)

lemma foldl_step_map_of:
  "map_of (foldl step m obs) n =
     (let mine = filter (\<lambda>ob. s_name (snd ob) = n) obs
      in if mine = [] then map_of m n
         else Some (foldl bump (case map_of m n of None \<Rightarrow> fresh | Some d \<Rightarrow> d) mine))"
proof (induction obs arbitrary: m)
  case Nil
  show ?case by simp
next
  case (Cons ob obs)
  obtain seed s where ob: "ob = (seed, s)" by (cases ob)
  show ?case
    by (simp add: Cons.IH ob step_map_of Let_def)
qed

lemma foldl_bump:
  "foldl bump d obs =
     \<lparr>d_frequency = d_frequency d + length obs,
      d_weightedScoreSum = d_weightedScoreSum d + (\<Sum>(seed, s)\<leftarrow>obs. jmul (s_match s) (wa_weight seed)),
      d_scores = d_scores d @ map (s_match \<circ> snd) obs\<rparr>"
proof (induction obs arbitrary: d)
  case Nil
  show ?case by simp
next
  case (Cons ob obs)
  show ?case
    by (cases ob) (simp add: Cons.IH, simp add: bump_def add.assoc)
qed

lemma accumulateAll_step: "accumulateAll results = foldl step [] (observations results)"
  unfolding accumulateAll_def accumulateAll_obs step_def ..


subsection \<open>Sorting\<close>

lemma set_sort_insert: "set (sort_insert cmp x ys) = insert x (set ys)"
  by (induction ys) auto

lemma set_Array_sort: "set (Array_sort cmp xs) = set xs"
  by (induction xs) (simp_all add: set_sort_insert)

lemma length_sort_insert: "length (sort_insert cmp x ys) = Suc (length ys)"
  by (induction ys) simp_all

lemma length_Array_sort: "length (Array_sort cmp xs) = length xs"
  by (induction xs) (simp_all add: length_sort_insert)

lemma distinct_map_sort_insert:
  "distinct (map f (sort_insert cmp x ys)) = (f x \<notin> f ` set ys \<and> distinct (map f ys))"
  by (induction ys) (auto simp: set_sort_insert)

lemma distinct_map_Array_sort: "distinct (map f (Array_sort cmp xs)) = distinct (map f xs)"
  by (induction xs) (simp_all add: distinct_map_sort_insert set_Array_sort)



subsection \<open>The aggregated entries\<close>

lemma name_aggregatedOf: "name (aggregatedOf e) = fst e"
  by (cases e) (simp add: aggregatedOf_def)

lemma names_aggregate: "set (map name (aggregate results)) = (s_name \<circ> snd) ` set (observations results)"
proof -
  have "name ` set (aggregate results) = fst ` set (accumulateAll results)"
    by (simp add: aggregate_def set_Array_sort image_image name_aggregatedOf)
  then show ?thesis
    by (simp add: accumulateAll_step foldl_step_keys)
qed

lemma distinct_aggregate: "distinct (map name (aggregate results))"
proof -
  have "map name (map aggregatedOf (accumulateAll results)) = map fst (accumulateAll results)"
    by (simp add: name_aggregatedOf)
  moreover have "distinct (map fst (accumulateAll results))"
    by (simp add: accumulateAll_step foldl_step_distinct)
  ultimately show ?thesis
    by (simp add: aggregate_def distinct_map_Array_sort del: map_map)
qed

lemma aggregate_entry:
  assumes "a \<in> set (aggregate results)"
  shows "observed results (name a) \<noteq> []"
    and "a = aggregatedOf (name a, foldl bump fresh (observed results (name a)))"
proof -
  from assms obtain n d where e: "(n, d) \<in> set (accumulateAll results)" and a: "a = aggregatedOf (n, d)"
    by (auto simp: aggregate_def set_Array_sort)
  have "distinct (map fst (accumulateAll results))"
    by (simp add: accumulateAll_step foldl_step_distinct)
  with e have "map_of (accumulateAll results) n = Some d"
    by simp
  then have m: "map_of (foldl step [] (observations results)) n = Some d"
    by (simp add: accumulateAll_step)
  have obs: "observed results n = filter (\<lambda>ob. s_name (snd ob) = n) (observations results)"
    by (simp add: observed_def case_prod_unfold)
  from m have ne: "observed results n \<noteq> []" and d: "d = foldl bump fresh (observed results n)"
    by (auto simp: foldl_step_map_of obs Let_def split: if_splits)
  have na: "name a = n"
    by (simp add: a name_aggregatedOf)
  show "observed results (name a) \<noteq> []"
    using ne na by simp
  show "a = aggregatedOf (name a, foldl bump fresh (observed results (name a)))"
    using a d na by simp
qed

lemma frequency_aggregate:
  assumes "a \<in> set (aggregate results)"
  shows "frequency a = length (observed results (name a))" and "1 \<le> frequency a"
proof -
  from aggregate_entry [OF assms]
  have ne: "observed results (name a) \<noteq> []"
    and a: "a = aggregatedOf (name a, foldl bump fresh (observed results (name a)))"
    by simp_all
  have "frequency (aggregatedOf (n, d)) = d_frequency d" for n d
    by (simp add: aggregatedOf_def)
  with a have "frequency a = d_frequency (foldl bump fresh (observed results (name a)))"
    by metis
  then show f: "frequency a = length (observed results (name a))"
    by (simp add: foldl_bump fresh_def)
  from ne f show "1 \<le> frequency a"
    by (cases "observed results (name a)") simp_all
qed

lemma getSimilarArtistsForMultiple_requests:
  "snd (getSimilarArtistsForMultiple api args)
     = map (\<lambda>a. LastfmRequest (wa_name a)) (normalizeArtists args)"
  by (simp add: getSimilarArtistsForMultiple_def Let_def getSimilarArtists_def comp_def)

lemma getSimilarArtistsForMultiple_aggregate:
  "fst (getSimilarArtistsForMultiple api args)
     = aggregate (map (\<lambda>a. (a, fst (getSimilarArtists api (wa_name a)))) (normalizeArtists args))"
  by (simp add: getSimilarArtistsForMultiple_def Let_def zip_map2 comp_def zip_same_conv_map)

lemma getSimilarArtistsForMultiple_old_aggregate:
  "fst (getSimilarArtistsForMultiple_old api artistNames)
     = aggregate_old (map (\<lambda>n. fst (getSimilarArtists api n)) artistNames)"
  by (simp add: getSimilarArtistsForMultiple_old_def Let_def comp_def)

lemma normalizeArtists_Obj:
  "normalizeArtists (map (\<lambda>a. Obj (f a) (g a)) seeds)
     = map (\<lambda>a. \<lparr>wa_name = f a, wa_weight = g a\<rparr>) seeds"
  by (simp add: normalizeArtists_def)


text \<open>
  C1, as amended. The results accumulate into one entry for each exact name: the names
  of the returned entries are pairwise distinct, they are the names of the observed
  candidates, and the frequency of an entry counts the observations of its exact name.
  (Names that differ only in letter case have separate entries.)
\<close>

theorem one_entry_per_exact_name:
  "distinct (map name (aggregate results))
   \<and> set (map name (aggregate results)) = (s_name \<circ> snd) ` set (observations results)
   \<and> (\<forall>a \<in> set (aggregate results). frequency a = length (observed results (name a)))"
  using distinct_aggregate [of results] names_aggregate [of results]
    frequency_aggregate(1) [of _ results]
  by blast

theorem one_entry_per_exact_name_witness:
  "distinct (map name (aggregate results_example))
   \<and> ''X'' \<in> (s_name \<circ> snd) ` set (observations results_example)
   \<and> \<lparr>name = ''X'', frequency = 2, averageMatch = Fin (7 / 10), combinedScore = Fin (7 / 10)\<rparr>
       \<in> set (aggregate results_example)
   \<and> length (observed results_example ''X'') = 2"
proof -
  let ?x = "\<lparr>name = ''X'', frequency = 2, averageMatch = Fin (7 / 10),
             combinedScore = Fin (7 / 10)\<rparr>"
  have m: "?x \<in> set (aggregate results_example)"
    by code_simp
  then have n: "name ?x \<in> set (map name (aggregate results_example))"
    by (metis image_eqI list.set_map)
  from one_entry_per_exact_name [of results_example] m n show ?thesis
    by auto
qed

theorem case_variants_counterexample:
  "map name (fst (getSimilarArtistsForMultiple lastfm_case_example [Str ''A'']))
     = [''Moby'', ''MOBY'']
   \<and> toLowerCase ''Moby'' = toLowerCase ''MOBY''
   \<and> ''Moby'' \<noteq> ''MOBY''"
  by code_simp



subsection \<open>The earlier and the current aggregation\<close>

















section \<open>Properties of the seed extraction\<close>

subsection \<open>Normalisation of the playlist weights\<close>








subsection \<open>The weights of the seed artists\<close>

lemma addSeed_eq:
  "addSeed w m a =
     AList.update (a_id a)
       (case map_of m (a_id a) of
          Some seed \<Rightarrow> seed\<lparr>weight := weight seed + w\<rparr>
        | None \<Rightarrow> \<lparr>a_id = a_id a, a_name = a_name a, weight = w\<rparr>) m"
  by (simp add: addSeed_def Map_get_def Map_set_def split: option.splits)

lemma set_update_subset: "set (AList.update k v m) \<subseteq> insert (k, v) (set m)"
  by (induction m) auto

lemma keyed_update:
  assumes "keyed m" and "a_id v = k"
  shows "keyed (AList.update k v m)"
  using assms set_update_subset [of k v m]
  by (auto simp: keyed_def distinct_update)

lemma keyed_seedStep: "keyed m \<Longrightarrow> keyed (seedStep m ob)"
proof -
  assume k: "keyed m"
  obtain a w where ob: "ob = (a, w)" by (cases ob)
  have "a_id (case map_of m (a_id a) of
          Some seed \<Rightarrow> seed\<lparr>weight := weight seed + w\<rparr>
        | None \<Rightarrow> \<lparr>a_id = a_id a, a_name = a_name a, weight = w\<rparr>) = a_id a"
    using k by (auto simp: keyed_def split: option.splits dest!: map_of_SomeD)
  then show ?thesis
    using k by (simp add: ob seedStep_def addSeed_eq keyed_update)
qed

lemma keyed_foldl_seedStep: "keyed m \<Longrightarrow> keyed (foldl seedStep m obs)"
  by (induction obs arbitrary: m) (simp_all add: keyed_seedStep)

lemma weightOf_seedStep:
  "weightOf (seedStep m (a, w)) i = (if a_id a = i then weightOf m i + w else weightOf m i)"
  by (simp add: weightOf_def seedStep_def addSeed_eq update_conv' split: option.splits)

lemma weightOf_foldl_seedStep:
  "weightOf (foldl seedStep m obs) i =
     weightOf m i + sum_list (map snd (filter (\<lambda>(a, w). a_id a = i) obs))"
proof (induction obs arbitrary: m)
  case Nil
  show ?case by simp
next
  case (Cons ob obs)
  show ?case
    by (cases ob) (simp add: Cons.IH weightOf_seedStep add.assoc)
qed




lemma getPlaylistArtists_ok:
  "getPlaylistArtists sp u = (Inr artists, reqs) \<Longrightarrow>
     playlistArtists sp u = artists \<and> reqs = [SpotifyRequest u]"
  by (auto simp: playlistArtists_def getPlaylistArtists_def getPlaylistTracks_def
      split: option.splits)

lemma getPlaylistArtists_fail:
  "getPlaylistArtists sp u = (Inl e, reqs) \<Longrightarrow> reqs = [SpotifyRequest u]"
  by (auto simp: getPlaylistArtists_def getPlaylistTracks_def split: option.splits)

lemma collectSeeds_ok:
  "collectSeeds sp m ps = (Inr m', reqs) \<Longrightarrow>
     m' = foldl seedStep m (seedObservations sp ps) \<and> reqs = map (SpotifyRequest \<circ> p_url) ps"
proof (induction ps arbitrary: m reqs)
  case Nil
  then show ?case by (simp add: seedObservations_def)
next
  case (Cons p ps)
  from Cons.prems obtain artists r1 r2 where
    g: "getPlaylistArtists sp (p_url p) = (Inr artists, r1)" and
    c: "collectSeeds sp (foldl (addSeed (p_weight p)) m artists) ps = (Inr m', r2)" and
    r: "reqs = r1 @ r2"
    by (auto split: prod.splits sum.splits)
  have inner: "foldl (addSeed (p_weight p)) m0 artists
      = foldl seedStep m0 (map (\<lambda>a. (a, p_weight p)) artists)" for m0
    by (induction artists arbitrary: m0) (simp_all add: seedStep_def)
  from getPlaylistArtists_ok [OF g] Cons.IH [OF c] show ?case
    by (simp add: r inner seedObservations_def)
qed

lemma collectSeeds_requests:
  "collectSeeds sp m ps = (r, reqs) \<Longrightarrow> \<exists>n. reqs = map (SpotifyRequest \<circ> p_url) (take n ps)"
proof (induction ps arbitrary: m r reqs)
  case Nil
  then show ?case by simp
next
  case (Cons p ps)
  show ?case
  proof (cases "getPlaylistArtists sp (p_url p)")
    case (Pair x r1)
    show ?thesis
    proof (cases x)
      case (Inl e)
      with Pair Cons.prems getPlaylistArtists_fail [of sp "p_url p" e r1]
      have "reqs = map (SpotifyRequest \<circ> p_url) (take 1 (p # ps))" by auto
      then show ?thesis by blast
    next
      case (Inr artists)
      with Pair Cons.prems obtain r2 where
        c: "collectSeeds sp (foldl (addSeed (p_weight p)) m artists) ps = (r, r2)" and
        r: "reqs = r1 @ r2"
        by (auto split: prod.splits)
      from Cons.IH [OF c] obtain n where "r2 = map (SpotifyRequest \<circ> p_url) (take n ps)" ..
      with r getPlaylistArtists_ok [of sp "p_url p" artists r1] Pair Inr
      have "reqs = map (SpotifyRequest \<circ> p_url) (take (Suc n) (p # ps))" by simp
      then show ?thesis by blast
    qed
  qed
qed

lemma keyed_addArtist: "keyed m \<Longrightarrow> keyed (addArtist m a)"
  by (simp add: addArtist_def Map_set_def keyed_update)

lemma keyed_foldl_addArtist: "keyed m \<Longrightarrow> keyed (foldl addArtist m artists)"
  by (induction artists arbitrary: m) (simp_all add: keyed_addArtist)

lemma keyed_tracks:
  "keyed m \<Longrightarrow> keyed (foldl (\<lambda>artistMap t. foldl addArtist artistMap (t_artists t)) m tracks)"
  by (induction tracks arbitrary: m) (simp_all add: keyed_foldl_addArtist)

lemma keyed_ids: "keyed m \<Longrightarrow> map a_id (map snd m) = map fst m"
  by (induction m) (auto simp: keyed_def)

lemma keyed_Nil: "keyed []"
  by (simp add: keyed_def)

lemma distinct_playlistArtists: "distinct (map a_id (playlistArtists sp u))"
proof (cases "sp u")
  case None
  then show ?thesis
    by (simp add: playlistArtists_def getPlaylistArtists_def getPlaylistTracks_def)
next
  case (Some tracks)
  have k: "keyed (foldl (\<lambda>artistMap t. foldl addArtist artistMap (t_artists t)) [] tracks)"
    by (rule keyed_tracks [OF keyed_Nil])
  have "distinct (map fst (foldl (\<lambda>artistMap t. foldl addArtist artistMap (t_artists t)) [] tracks))"
    using k by (simp add: keyed_def)
  then show ?thesis
    using Some keyed_ids [OF k]
    by (simp add: playlistArtists_def getPlaylistArtists_def getPlaylistTracks_def Map_values_def
        del: map_map)
qed

lemma one_playlist_contribution:
  "distinct (map a_id artists) \<Longrightarrow>
     map snd (filter (\<lambda>(a, w). a_id a = i) (map (\<lambda>a. (a, w0)) artists))
       = (if i \<in> a_id ` set artists then [w0] else [])"
  by (induction artists) auto

lemma seedObservations_contributions:
  "map snd (filter (\<lambda>(a, w). a_id a = i) (seedObservations sp ps)) = contributions sp ps i"
proof (induction ps)
  case Nil
  show ?case by (simp add: seedObservations_def contributions_def)
next
  case (Cons p ps)
  have "map snd (filter (\<lambda>(a, w). a_id a = i) (seedObservations sp (p # ps)))
      = map snd (filter (\<lambda>(a, w). a_id a = i)
                   (map (\<lambda>a. (a, p_weight p)) (playlistArtists sp (p_url p))))
        @ map snd (filter (\<lambda>(a, w). a_id a = i) (seedObservations sp ps))"
    by (simp add: seedObservations_def)
  also have "\<dots> = (if i \<in> a_id ` set (playlistArtists sp (p_url p)) then [p_weight p] else [])
        @ contributions sp ps i"
    by (simp only: one_playlist_contribution [OF distinct_playlistArtists] Cons.IH)
  also have "\<dots> = contributions sp (p # ps) i"
    by (simp add: contributions_def)
  finally show ?case .
qed

lemma seedExtraction_ok:
  assumes "seedExtraction sp playlists = (Inr (ps, seeds), reqs)"
  shows "ps = normalizeWeights (playlistsWithWeights playlists)"
    and "seeds = map snd (foldl seedStep [] (seedObservations sp ps))"
    and "reqs = map (SpotifyRequest \<circ> p_url) ps"
proof -
  from assms obtain m where
    c: "collectSeeds sp [] (normalizeWeights (playlistsWithWeights playlists)) = (Inr m, reqs)"
    and ps: "ps = normalizeWeights (playlistsWithWeights playlists)"
    and seeds: "seeds = Map_values m"
    by (auto simp: seedExtraction_def Let_def split: prod.splits sum.splits)
  show "ps = normalizeWeights (playlistsWithWeights playlists)" by (rule ps)
  from collectSeeds_ok [OF c] ps seeds
  show "seeds = map snd (foldl seedStep [] (seedObservations sp ps))"
    and "reqs = map (SpotifyRequest \<circ> p_url) ps"
    by (simp_all add: Map_values_def)
qed

lemma seeds_distinct_ids:
  assumes "seedExtraction sp playlists = (Inr (ps, seeds), reqs0)"
  shows "distinct (map a_id seeds)"
proof -
  let ?m = "foldl seedStep [] (seedObservations sp ps)"
  have k: "keyed ?m"
    by (rule keyed_foldl_seedStep [OF keyed_Nil])
  then have "distinct (map fst ?m)"
    by (simp add: keyed_def)
  with keyed_ids [OF k] show ?thesis
    by (simp add: seedExtraction_ok(2) [OF assms] del: map_map)
qed

lemma seed_weight:
  assumes "seedExtraction sp playlists = (Inr (ps, seeds), reqs)" and "seed \<in> set seeds"
  shows "weight seed = sum_list (contributions sp ps (a_id seed))"
proof -
  let ?m = "foldl seedStep [] (seedObservations sp ps)"
  have k: "keyed ?m"
    by (rule keyed_foldl_seedStep [OF keyed_Nil])
  from assms seedExtraction_ok(2) [OF assms(1)] obtain i where e: "(i, seed) \<in> set ?m"
    by auto
  with k have i: "a_id seed = i" and m: "map_of ?m i = Some seed"
    by (auto simp: keyed_def)
  have "weight seed = weightOf ?m (a_id seed)"
    by (simp add: weightOf_def i m)
  also have "\<dots> = sum_list (contributions sp ps (a_id seed))"
    by (simp add: weightOf_foldl_seedStep seedObservations_contributions) (simp add: weightOf_def)
  finally show ?thesis .
qed

text \<open>
  C6. A seed artist that is in two of the input playlists (its id is among the artists of
  exactly two of them, with normalised weights \<open>w1\<close> and \<open>w2\<close>) has the weight
  \<open>w1 + w2\<close>.
\<close>

theorem seed_weight_two_playlists:
  assumes "seedExtraction sp playlists = (Inr (ps, seeds), reqs)"
    and "seed \<in> set seeds"
    and "contributions sp ps (a_id seed) = [w1, w2]"
  shows "weight seed = w1 + w2"
  using seed_weight [OF assms(1,2)] assms(3) by simp

theorem seed_weight_two_playlists_witness:
  "seedExtraction spotify_example [Weighted ''p1'' (Fin 60), Weighted ''p2'' (Fin 40)]
     = (Inr ([\<lparr>p_url = ''p1'', p_weight = Fin (3 / 5)\<rparr>, \<lparr>p_url = ''p2'', p_weight = Fin (2 / 5)\<rparr>],
             [\<lparr>a_id = ''1'', a_name = ''A'', weight = Fin 1\<rparr>,
              \<lparr>a_id = ''2'', a_name = ''B'', weight = Fin (3 / 5)\<rparr>]),
        [SpotifyRequest ''p1'', SpotifyRequest ''p2''])
   \<and> contributions spotify_example
         [\<lparr>p_url = ''p1'', p_weight = Fin (3 / 5)\<rparr>, \<lparr>p_url = ''p2'', p_weight = Fin (2 / 5)\<rparr>] ''1''
       = [Fin (3 / 5), Fin (2 / 5)]
   \<and> weight \<lparr>a_id = ''1'', a_name = ''A'', weight = Fin 1\<rparr> = Fin (3 / 5) + Fin (2 / 5)"
proof -
  let ?ps = "[\<lparr>p_url = ''p1'', p_weight = Fin (3 / 5)\<rparr>, \<lparr>p_url = ''p2'', p_weight = Fin (2 / 5)\<rparr>]"
  let ?a = "\<lparr>a_id = ''1'', a_name = ''A'', weight = Fin 1\<rparr>"
  let ?b = "\<lparr>a_id = ''2'', a_name = ''B'', weight = Fin (3 / 5)\<rparr>"
  have e: "seedExtraction spotify_example [Weighted ''p1'' (Fin 60), Weighted ''p2'' (Fin 40)]
      = (Inr (?ps, [?a, ?b]), [SpotifyRequest ''p1'', SpotifyRequest ''p2''])"
    by code_simp
  have m: "?a \<in> set [?a, ?b]"
    by simp
  have c: "contributions spotify_example ?ps (a_id ?a) = [Fin (3 / 5), Fin (2 / 5)]"
    by code_simp
  from seed_weight_two_playlists [OF e m c] e c show ?thesis
    by simp
qed





section \<open>Properties of the recommendations\<close>

subsection \<open>The result of the engine\<close>

lemma lookups_append: "lookups (xs @ ys) = lookups xs @ lookups ys"
  by (simp add: lookups_def)

lemma lookups_spotify: "lookups (map (\<lambda>p. SpotifyRequest (f p)) ps) = []"
  by (induction ps) (simp_all add: lookups_def)

lemma lookups_lastfm: "lookups (map (\<lambda>a. LastfmRequest (f a)) xs) = map f xs"
  by (induction xs) (simp_all add: lookups_def)

lemma multiple_ok:
  assumes "seedExtraction sp playlists = (Inr (ps, seeds), reqs0)"
  shows "getRecommendationsFromMultiple sp fm playlists opts =
    (Inr \<lparr>seedArtists = map (\<lambda>a. \<lparr>a_id = a_id a, a_name = a_name a\<rparr>) seeds,
          recommendations =
            slice0 (bound opts)
              (filter (keep (map (\<lambda>a. toLowerCase (a_name a)) seeds) (threshold opts))
                 (candidates fm seeds)),
          totalFound =
            length (filter (keep (map (\<lambda>a. toLowerCase (a_name a)) seeds) (threshold opts))
                      (candidates fm seeds)),
          playlistWeights =
            map (\<lambda>p. \<lparr>pw_url = p_url p,
                       pw_weight = Math_round (jmul (p_weight p) (Fin 100))\<rparr>) ps\<rparr>,
     reqs0 @ map (\<lambda>a. LastfmRequest (a_name a)) seeds)"
proof -
  have r: "snd (getSimilarArtistsForMultiple fm (map (\<lambda>a. Obj (a_name a) (weight a)) seeds))
      = map (\<lambda>a. LastfmRequest (a_name a)) seeds"
    by (simp add: getSimilarArtistsForMultiple_requests normalizeArtists_Obj comp_def)
  show ?thesis
    using r
    by (simp add: getRecommendationsFromMultiple_def assms Let_def case_prod_unfold
        threshold_def bound_def candidates_def)
qed

lemma multiple_Inr:
  assumes "getRecommendationsFromMultiple sp fm playlists opts = (Inr r, reqs)"
  obtains ps seeds reqs0 where "seedExtraction sp playlists = (Inr (ps, seeds), reqs0)"
proof (cases "seedExtraction sp playlists")
  case (Pair x reqs0)
  show ?thesis
  proof (cases x)
    case (Inl e)
    with Pair assms show ?thesis
      by (simp add: getRecommendationsFromMultiple_def)
  next
    case (Inr y)
    with Pair that show ?thesis
      by (cases y) simp
  qed
qed

lemma multiple_empty:
  "getRecommendationsFromMultiple sp fm [] opts
     = (Inr \<lparr>seedArtists = [], recommendations = [], totalFound = 0, playlistWeights = []\<rparr>, [])"
proof -
  have e: "seedExtraction sp [] = (Inr ([], []), [])"
    by (simp add: seedExtraction_def playlistsWithWeights_def normalizeWeights_def Map_values_def)
  have "candidates fm [] = []"
    by (simp add: candidates_def getSimilarArtistsForMultiple_def normalizeArtists_def
        aggregate_def accumulateAll_def)
  with multiple_ok [OF e, of fm opts] show ?thesis
    by (simp add: slice0_def)
qed

lemma single_ok:
  assumes "getPlaylistArtists sp playlistUrl = (Inr seeds, reqs0)"
  shows "getRecommendations sp fm playlistUrl opts =
    (Inr \<lparr>seedArtists = seeds,
          recommendations =
            slice0 (case limit opts of None \<Rightarrow> 20 | Some l \<Rightarrow> l)
              (filter (keep (map toLowerCase (map a_name seeds))
                         (case minFrequency opts of None \<Rightarrow> 1 | Some k \<Rightarrow> k))
                 (candidates1 fm seeds)),
          totalFound =
            length (filter (keep (map toLowerCase (map a_name seeds))
                              (case minFrequency opts of None \<Rightarrow> 1 | Some k \<Rightarrow> k))
                      (candidates1 fm seeds))\<rparr>,
     reqs0 @ snd (getSimilarArtistsForMultiple fm (map Str (map a_name seeds))))"
  by (simp add: getRecommendations_def assms Let_def case_prod_unfold candidates1_def)

lemma single_Inr:
  assumes "getRecommendations sp fm playlistUrl opts = (Inr r, reqs)"
  obtains seeds reqs0 where "getPlaylistArtists sp playlistUrl = (Inr seeds, reqs0)"
proof (cases "getPlaylistArtists sp playlistUrl")
  case (Pair x reqs0)
  show ?thesis
  proof (cases x)
    case (Inl e)
    with Pair assms show ?thesis
      by (simp add: getRecommendations_def Let_def)
  next
    case (Inr y)
    with Pair that show ?thesis
      by simp
  qed
qed

subsection \<open>The similarity lookups\<close>

text \<open>
  C7, as amended. The fan-out issues one similarity lookup for each seed artist, that
  is for each distinct artist id, with the name of that artist: the lookups are the names
  of the seed artists in their order, as many as there are seed artists, which is at
  least the number of distinct names.
\<close>

theorem one_lookup_per_seed:
  assumes "getRecommendationsFromMultiple sp fm playlists opts = (Inr r, reqs)"
  shows "lookups reqs = map a_name (seedArtists r)
    \<and> length (lookups reqs) = length (seedArtists r)
    \<and> distinct (map a_id (seedArtists r))
    \<and> card (set (map a_name (seedArtists r))) \<le> length (lookups reqs)"
proof -
  from assms obtain ps seeds reqs0 where
    e: "seedExtraction sp playlists = (Inr (ps, seeds), reqs0)"
    by (rule multiple_Inr)
  from multiple_ok [OF e, of fm opts] assms
  have r: "seedArtists r = map (\<lambda>a. \<lparr>a_id = a_id a, a_name = a_name a\<rparr>) seeds"
    and q: "reqs = reqs0 @ map (\<lambda>a. LastfmRequest (a_name a)) seeds"
    by auto
  have l: "lookups reqs = map a_name (seedArtists r)"
    by (simp add: q r seedExtraction_ok(3) [OF e] lookups_append lookups_spotify lookups_lastfm
        comp_def)
  have d: "distinct (map a_id (seedArtists r))"
    using seeds_distinct_ids [OF e] by (simp add: r comp_def)
  have "card (set (map a_name (seedArtists r))) \<le> length (map a_name (seedArtists r))"
    by (rule card_length)
  with l d show ?thesis
    by simp
qed

theorem one_lookup_per_seed_witness:
  "getRecommendationsFromMultiple spotify_example lastfm_example [Url ''p1''] no_options
     = (Inr \<lparr>seedArtists = [\<lparr>a_id = ''1'', a_name = ''A''\<rparr>, \<lparr>a_id = ''2'', a_name = ''B''\<rparr>],
             recommendations =
               [\<lparr>name = ''X'', frequency = 2, averageMatch = Fin (7 / 10),
                 combinedScore = Fin (7 / 5)\<rparr>,
                \<lparr>name = ''Y'', frequency = 1, averageMatch = Fin (1 / 5),
                 combinedScore = Fin (1 / 5)\<rparr>],
             totalFound = 2,
             playlistWeights = [\<lparr>pw_url = ''p1'', pw_weight = Fin 100\<rparr>]\<rparr>,
        [SpotifyRequest ''p1'', LastfmRequest ''A'', LastfmRequest ''B''])
   \<and> lookups [SpotifyRequest ''p1'', LastfmRequest ''A'', LastfmRequest ''B''] = [''A'', ''B'']"
proof -
  let ?r = "\<lparr>seedArtists = [\<lparr>a_id = ''1'', a_name = ''A''\<rparr>, \<lparr>a_id = ''2'', a_name = ''B''\<rparr>],
             recommendations =
               [\<lparr>name = ''X'', frequency = 2, averageMatch = Fin (7 / 10),
                 combinedScore = Fin (7 / 5)\<rparr>,
                \<lparr>name = ''Y'', frequency = 1, averageMatch = Fin (1 / 5),
                 combinedScore = Fin (1 / 5)\<rparr>],
             totalFound = 2,
             playlistWeights = [\<lparr>pw_url = ''p1'', pw_weight = Fin 100\<rparr>]\<rparr>"
  have e: "getRecommendationsFromMultiple spotify_example lastfm_example [Url ''p1''] no_options
     = (Inr ?r, [SpotifyRequest ''p1'', LastfmRequest ''A'', LastfmRequest ''B''])"
    by code_simp
  from one_lookup_per_seed [OF e] e show ?thesis
    by simp
qed

theorem shared_name_counterexample:
  "getRecommendationsFromMultiple spotify_example lastfm_example [Url ''p3''] no_options
     = (Inr \<lparr>seedArtists = [\<lparr>a_id = ''3'', a_name = ''X''\<rparr>, \<lparr>a_id = ''4'', a_name = ''X''\<rparr>],
             recommendations = [], totalFound = 0,
             playlistWeights = [\<lparr>pw_url = ''p3'', pw_weight = Fin 100\<rparr>]\<rparr>,
        [SpotifyRequest ''p3'', LastfmRequest ''X'', LastfmRequest ''X''])
   \<and> length (lookups [SpotifyRequest ''p3'', LastfmRequest ''X'', LastfmRequest ''X'']) = 2
   \<and> card (set (map a_name [\<lparr>a_id = ''3'', a_name = ''X''\<rparr>, \<lparr>a_id = ''4'', a_name = ''X''\<rparr>])) = 1"
proof -
  have "getRecommendationsFromMultiple spotify_example lastfm_example [Url ''p3''] no_options
     = (Inr \<lparr>seedArtists = [\<lparr>a_id = ''3'', a_name = ''X''\<rparr>, \<lparr>a_id = ''4'', a_name = ''X''\<rparr>],
             recommendations = [], totalFound = 0,
             playlistWeights = [\<lparr>pw_url = ''p3'', pw_weight = Fin 100\<rparr>]\<rparr>,
        [SpotifyRequest ''p3'', LastfmRequest ''X'', LastfmRequest ''X''])"
    by code_simp
  then show ?thesis
    by (simp add: lookups_def)
qed

subsection \<open>The filter\<close>

lemma kept_not_seed:
  assumes "c \<in> set (slice0 n (filter (keep (map f seeds) k) cs))" and "s \<in> set seeds"
  shows "toLowerCase (name c) \<noteq> f s" and "k \<le> frequency c"
proof -
  from assms(1) have "c \<in> set (filter (keep (map f seeds) k) cs)"
    unfolding slice0_def by (rule in_set_takeD)
  then have k: "keep (map f seeds) k c"
    by simp
  from k show "k \<le> frequency c"
    by (simp add: keep_def)
  from k assms(2) show "toLowerCase (name c) \<noteq> f s"
    by (auto simp: keep_def)
qed

lemma kept_frequency:
  assumes "c \<in> set (slice0 n (filter (keep names k) cs))"
  shows "k \<le> frequency c"
proof -
  from assms have "c \<in> set (filter (keep names k) cs)"
    unfolding slice0_def by (rule in_set_takeD)
  then show ?thesis
    by (simp add: keep_def)
qed

text \<open>
  C8. No returned recommendation has a name that equals, up to letter case, the name of
  a seed artist, whatever its score and frequency and whatever the options; for
  \<open>getRecommendations\<close> and for \<open>getRecommendationsFromMultiple\<close>.
\<close>

theorem no_self_recommendation:
  "(getRecommendations sp fm playlistUrl opts = (Inr r, reqs) \<longrightarrow>
      (\<forall>c \<in> set (recommendations r). \<forall>s \<in> set (seedArtists r).
         toLowerCase (name c) \<noteq> toLowerCase (a_name s)))
   \<and> (getRecommendationsFromMultiple sp fm playlists opts' = (Inr r', reqs') \<longrightarrow>
      (\<forall>c \<in> set (recommendations r'). \<forall>s \<in> set (seedArtists r').
         toLowerCase (name c) \<noteq> toLowerCase (a_name s)))"
proof (intro conjI impI ballI)
  fix c s
  assume a: "getRecommendations sp fm playlistUrl opts = (Inr r, reqs)"
    and c: "c \<in> set (recommendations r)" and s: "s \<in> set (seedArtists r)"
  from a obtain seeds reqs0 where g: "getPlaylistArtists sp playlistUrl = (Inr seeds, reqs0)"
    by (rule single_Inr)
  from single_ok [OF g, of fm opts] a c s
  have "c \<in> set (slice0 (case limit opts of None \<Rightarrow> 20 | Some l \<Rightarrow> l)
              (filter (keep (map (\<lambda>a. toLowerCase (a_name a)) seeds)
                         (case minFrequency opts of None \<Rightarrow> 1 | Some k \<Rightarrow> k))
                 (candidates1 fm seeds)))" and "s \<in> set seeds"
    by (auto simp: comp_def)
  then show "toLowerCase (name c) \<noteq> toLowerCase (a_name s)"
    by (rule kept_not_seed(1))
next
  fix c s
  assume a: "getRecommendationsFromMultiple sp fm playlists opts' = (Inr r', reqs')"
    and c: "c \<in> set (recommendations r')" and s: "s \<in> set (seedArtists r')"
  from a obtain ps seeds reqs0 where e: "seedExtraction sp playlists = (Inr (ps, seeds), reqs0)"
    by (rule multiple_Inr)
  from multiple_ok [OF e, of fm opts'] a c s
  obtain s' where "c \<in> set (slice0 (bound opts')
              (filter (keep (map (\<lambda>a. toLowerCase (a_name a)) seeds) (threshold opts'))
                 (candidates fm seeds)))" and "s' \<in> set seeds" and "a_name s = a_name s'"
    by auto
  then show "toLowerCase (name c) \<noteq> toLowerCase (a_name s)"
    using kept_not_seed(1) [of c "bound opts'" "\<lambda>a. toLowerCase (a_name a)" seeds _ _ s']
    by simp
qed

theorem no_self_recommendation_witness:
  "getRecommendations spotify_example lastfm_self_example ''p1'' no_options
     = (Inr \<lparr>seedArtists = [\<lparr>a_id = ''1'', a_name = ''A''\<rparr>, \<lparr>a_id = ''2'', a_name = ''B''\<rparr>],
             recommendations =
               [\<lparr>name = ''X'', frequency = 2, averageMatch = Fin (7 / 10),
                 combinedScore = Fin (7 / 10)\<rparr>,
                \<lparr>name = ''Y'', frequency = 1, averageMatch = Fin (1 / 2),
                 combinedScore = Fin (1 / 4)\<rparr>],
             totalFound = 2\<rparr>,
        [SpotifyRequest ''p1'', LastfmRequest ''A'', LastfmRequest ''B''])
   \<and> getRecommendationsFromMultiple spotify_example lastfm_self_example [Url ''p1''] no_options
     = (Inr \<lparr>seedArtists = [\<lparr>a_id = ''1'', a_name = ''A''\<rparr>, \<lparr>a_id = ''2'', a_name = ''B''\<rparr>],
             recommendations =
               [\<lparr>name = ''X'', frequency = 2, averageMatch = Fin (7 / 10),
                 combinedScore = Fin (7 / 5)\<rparr>,
                \<lparr>name = ''Y'', frequency = 1, averageMatch = Fin (1 / 2),
                 combinedScore = Fin (1 / 2)\<rparr>],
             totalFound = 2,
             playlistWeights = [\<lparr>pw_url = ''p1'', pw_weight = Fin 100\<rparr>]\<rparr>,
        [SpotifyRequest ''p1'', LastfmRequest ''A'', LastfmRequest ''B''])
   \<and> map name (fst (getSimilarArtistsForMultiple lastfm_self_example [Str ''A'', Str ''B'']))
     = [''X'', ''b'', ''Y'']
   \<and> toLowerCase ''b'' = toLowerCase ''B''
   \<and> toLowerCase ''X'' \<noteq> toLowerCase ''A'' \<and> toLowerCase ''X'' \<noteq> toLowerCase ''B''"
proof -
  let ?x = "\<lparr>name = ''X'', frequency = 2, averageMatch = Fin (7 / 10),
             combinedScore = Fin (7 / 10)\<rparr>"
  let ?y = "\<lparr>name = ''Y'', frequency = 1, averageMatch = Fin (1 / 2), combinedScore = Fin (1 / 4)\<rparr>"
  let ?x' = "\<lparr>name = ''X'', frequency = 2, averageMatch = Fin (7 / 10),
             combinedScore = Fin (7 / 5)\<rparr>"
  let ?y' = "\<lparr>name = ''Y'', frequency = 1, averageMatch = Fin (1 / 2), combinedScore = Fin (1 / 2)\<rparr>"
  let ?a = "\<lparr>a_id = ''1'', a_name = ''A''\<rparr>"
  let ?b = "\<lparr>a_id = ''2'', a_name = ''B''\<rparr>"
  let ?r = "\<lparr>seedArtists = [?a, ?b], recommendations = [?x, ?y], totalFound = 2\<rparr>"
  let ?r' = "\<lparr>seedArtists = [?a, ?b], recommendations = [?x', ?y'], totalFound = 2,
             playlistWeights = [\<lparr>pw_url = ''p1'', pw_weight = Fin 100\<rparr>]\<rparr>"
  let ?q = "[SpotifyRequest ''p1'', LastfmRequest ''A'', LastfmRequest ''B'']"
  have e1: "getRecommendations spotify_example lastfm_self_example ''p1'' no_options = (Inr ?r, ?q)"
    by code_simp
  have e2: "getRecommendationsFromMultiple spotify_example lastfm_self_example [Url ''p1'']
      no_options = (Inr ?r', ?q)"
    by code_simp
  have e3: "map name (fst (getSimilarArtistsForMultiple lastfm_self_example [Str ''A'', Str ''B'']))
     = [''X'', ''b'', ''Y'']"
    by code_simp
  have e4: "toLowerCase ''b'' = toLowerCase ''B''"
    by code_simp
  from no_self_recommendation [of spotify_example lastfm_self_example "''p1''" no_options ?r ?q
      "[Url ''p1'']" no_options ?r' ?q] e1 e2
  have "\<forall>c \<in> set (recommendations ?r). \<forall>s \<in> set (seedArtists ?r).
         toLowerCase (name c) \<noteq> toLowerCase (a_name s)"
    by blast
  then have "toLowerCase ''X'' \<noteq> toLowerCase ''A'' \<and> toLowerCase ''X'' \<noteq> toLowerCase ''B''"
    by simp
  with e1 e2 e3 e4 show ?thesis
    by blast
qed

lemma candidates_frequency: "c \<in> set (candidates fm seeds) \<Longrightarrow> 1 \<le> frequency c"
  unfolding candidates_def getSimilarArtistsForMultiple_aggregate
  by (rule frequency_aggregate(2))

lemma keep_threshold:
  assumes "minFrequency opts = Some k"
  shows "filter (keep names (threshold opts)) (candidates fm seeds)
       = filter (keep names k) (candidates fm seeds)"
proof (rule filter_cong [OF refl])
  fix c assume "c \<in> set (candidates fm seeds)"
  then have "1 \<le> frequency c"
    by (rule candidates_frequency)
  then show "keep names (threshold opts) c = keep names k c"
    using assms by (auto simp: keep_def threshold_def Let_def)
qed

lemma length_slice0: "length (slice0 n xs) \<le> n" "length (slice0 n xs) \<le> length xs"
  by (simp_all add: slice0_def)

text \<open>
  C9. With \<open>minFrequency = k\<close>, every returned recommendation has a frequency of at least
  \<open>k\<close>; \<open>totalFound\<close> is the number of aggregated candidates that are not a seed artist
  and have a frequency of at least \<open>k\<close>, counted before the truncation; the list of
  recommendations is no longer than \<open>totalFound\<close>, and no longer than a positive
  \<open>limit\<close>. For \<open>getRecommendationsFromMultiple\<close> and for \<open>getRecommendations\<close>.
\<close>

theorem minFrequency_filter:
  "(getRecommendationsFromMultiple sp fm playlists opts = (Inr r, reqs)
      \<and> seedExtraction sp playlists = (Inr (ps, seeds), reqs0)
      \<and> minFrequency opts = Some k \<longrightarrow>
      (\<forall>c \<in> set (recommendations r). k \<le> frequency c)
      \<and> totalFound r
          = length (filter (keep (map (\<lambda>a. toLowerCase (a_name a)) seeds) k) (candidates fm seeds))
      \<and> length (recommendations r) \<le> totalFound r
      \<and> (\<forall>l. limit opts = Some l \<and> 0 < l \<longrightarrow> length (recommendations r) \<le> l))
   \<and> (getRecommendations sp fm playlistUrl opts = (Inr r1, reqs1)
      \<and> getPlaylistArtists sp playlistUrl = (Inr seeds1, reqs2)
      \<and> minFrequency opts = Some k \<longrightarrow>
      (\<forall>c \<in> set (recommendations r1). k \<le> frequency c)
      \<and> totalFound r1
          = length (filter (keep (map (\<lambda>a. toLowerCase (a_name a)) seeds1) k)
                      (candidates1 fm seeds1))
      \<and> length (recommendations r1) \<le> totalFound r1
      \<and> (\<forall>l. limit opts = Some l \<and> 0 < l \<longrightarrow> length (recommendations r1) \<le> l))"
proof (intro conjI impI; elim conjE)
  let ?names = "map (\<lambda>a. toLowerCase (a_name a)) seeds"
  assume a: "getRecommendationsFromMultiple sp fm playlists opts = (Inr r, reqs)"
    and e: "seedExtraction sp playlists = (Inr (ps, seeds), reqs0)"
    and k: "minFrequency opts = Some k"
  from multiple_ok [OF e, of fm opts] a
  have recs: "recommendations r = slice0 (bound opts) (filter (keep ?names k) (candidates fm seeds))"
    and total: "totalFound r = length (filter (keep ?names k) (candidates fm seeds))"
    by (auto simp: keep_threshold [OF k])
  show "\<forall>c \<in> set (recommendations r). k \<le> frequency c"
    unfolding recs by (blast intro: kept_frequency)
  show "totalFound r = length (filter (keep ?names k) (candidates fm seeds))"
    by (rule total)
  show "length (recommendations r) \<le> totalFound r"
    unfolding recs total by (rule length_slice0(2))
  show "\<forall>l. limit opts = Some l \<and> 0 < l \<longrightarrow> length (recommendations r) \<le> l"
  proof (intro allI impI)
    fix l assume "limit opts = Some l \<and> 0 < l"
    then have "bound opts = l"
      by (simp add: bound_def)
    then show "length (recommendations r) \<le> l"
      unfolding recs using length_slice0(1) [of "bound opts"] by simp
  qed
next
  let ?names = "map (\<lambda>a. toLowerCase (a_name a)) seeds1"
  assume a: "getRecommendations sp fm playlistUrl opts = (Inr r1, reqs1)"
    and g: "getPlaylistArtists sp playlistUrl = (Inr seeds1, reqs2)"
    and k: "minFrequency opts = Some k"
  from single_ok [OF g, of fm opts] a k
  have recs: "recommendations r1 = slice0 (case limit opts of None \<Rightarrow> 20 | Some l \<Rightarrow> l)
        (filter (keep ?names k) (candidates1 fm seeds1))"
    and total: "totalFound r1 = length (filter (keep ?names k) (candidates1 fm seeds1))"
    by (auto simp: comp_def)
  show "\<forall>c \<in> set (recommendations r1). k \<le> frequency c"
    unfolding recs by (blast intro: kept_frequency)
  show "totalFound r1 = length (filter (keep ?names k) (candidates1 fm seeds1))"
    by (rule total)
  show "length (recommendations r1) \<le> totalFound r1"
    unfolding recs total by (rule length_slice0(2))
  show "\<forall>l. limit opts = Some l \<and> 0 < l \<longrightarrow> length (recommendations r1) \<le> l"
  proof (intro allI impI)
    fix l assume "limit opts = Some l \<and> 0 < l"
    then show "length (recommendations r1) \<le> l"
      unfolding recs using length_slice0(1) [of l] by simp
  qed
qed

theorem minFrequency_filter_witness:
  "getRecommendationsFromMultiple spotify_example lastfm_self_example [Url ''p1''] options_example
     = (Inr \<lparr>seedArtists = [\<lparr>a_id = ''1'', a_name = ''A''\<rparr>, \<lparr>a_id = ''2'', a_name = ''B''\<rparr>],
             recommendations =
               [\<lparr>name = ''X'', frequency = 2, averageMatch = Fin (7 / 10),
                 combinedScore = Fin (7 / 5)\<rparr>],
             totalFound = 2,
             playlistWeights = [\<lparr>pw_url = ''p1'', pw_weight = Fin 100\<rparr>]\<rparr>,
        [SpotifyRequest ''p1'', LastfmRequest ''A'', LastfmRequest ''B''])
   \<and> seedExtraction spotify_example [Url ''p1'']
     = (Inr ([\<lparr>p_url = ''p1'', p_weight = Fin 1\<rparr>],
             [\<lparr>a_id = ''1'', a_name = ''A'', weight = Fin 1\<rparr>,
              \<lparr>a_id = ''2'', a_name = ''B'', weight = Fin 1\<rparr>]),
        [SpotifyRequest ''p1''])
   \<and> getRecommendations spotify_example lastfm_self_example ''p1'' options_example
     = (Inr \<lparr>seedArtists = [\<lparr>a_id = ''1'', a_name = ''A''\<rparr>, \<lparr>a_id = ''2'', a_name = ''B''\<rparr>],
             recommendations =
               [\<lparr>name = ''X'', frequency = 2, averageMatch = Fin (7 / 10),
                 combinedScore = Fin (7 / 10)\<rparr>],
             totalFound = 2\<rparr>,
        [SpotifyRequest ''p1'', LastfmRequest ''A'', LastfmRequest ''B''])
   \<and> getPlaylistArtists spotify_example ''p1''
     = (Inr [\<lparr>a_id = ''1'', a_name = ''A''\<rparr>, \<lparr>a_id = ''2'', a_name = ''B''\<rparr>],
        [SpotifyRequest ''p1''])
   \<and> minFrequency options_example = Some 1 \<and> limit options_example = Some 1
   \<and> length (filter (keep (map (\<lambda>a. toLowerCase (a_name a))
                              [\<lparr>a_id = ''1'', a_name = ''A'', weight = Fin 1\<rparr>,
                               \<lparr>a_id = ''2'', a_name = ''B'', weight = Fin 1\<rparr>]) 1)
               (candidates lastfm_self_example
                  [\<lparr>a_id = ''1'', a_name = ''A'', weight = Fin 1\<rparr>,
                   \<lparr>a_id = ''2'', a_name = ''B'', weight = Fin 1\<rparr>])) = 2"
proof -
  let ?x = "\<lparr>name = ''X'', frequency = 2, averageMatch = Fin (7 / 10),
             combinedScore = Fin (7 / 10)\<rparr>"
  let ?x' = "\<lparr>name = ''X'', frequency = 2, averageMatch = Fin (7 / 10),
             combinedScore = Fin (7 / 5)\<rparr>"
  let ?a = "\<lparr>a_id = ''1'', a_name = ''A''\<rparr>"
  let ?b = "\<lparr>a_id = ''2'', a_name = ''B''\<rparr>"
  let ?sa = "\<lparr>a_id = ''1'', a_name = ''A'', weight = Fin 1\<rparr>"
  let ?sb = "\<lparr>a_id = ''2'', a_name = ''B'', weight = Fin 1\<rparr>"
  let ?ps = "[\<lparr>p_url = ''p1'', p_weight = Fin 1\<rparr>]"
  let ?r1 = "\<lparr>seedArtists = [?a, ?b], recommendations = [?x], totalFound = 2\<rparr>"
  let ?r = "\<lparr>seedArtists = [?a, ?b], recommendations = [?x'], totalFound = 2,
             playlistWeights = [\<lparr>pw_url = ''p1'', pw_weight = Fin 100\<rparr>]\<rparr>"
  let ?q = "[SpotifyRequest ''p1'', LastfmRequest ''A'', LastfmRequest ''B'']"
  have e1: "getRecommendationsFromMultiple spotify_example lastfm_self_example [Url ''p1'']
      options_example = (Inr ?r, ?q)"
    by code_simp
  have e2: "seedExtraction spotify_example [Url ''p1'']
      = (Inr (?ps, [?sa, ?sb]), [SpotifyRequest ''p1''])"
    by code_simp
  have e3: "getRecommendations spotify_example lastfm_self_example ''p1'' options_example
      = (Inr ?r1, ?q)"
    by code_simp
  have e4: "getPlaylistArtists spotify_example ''p1'' = (Inr [?a, ?b], [SpotifyRequest ''p1''])"
    by code_simp
  have k: "minFrequency options_example = Some 1" and l: "limit options_example = Some 1"
    by (simp_all add: options_example_def)
  from minFrequency_filter [of spotify_example lastfm_self_example "[Url ''p1'']" options_example
      ?r ?q ?ps "[?sa, ?sb]" "[SpotifyRequest ''p1'']" 1 "''p1''" ?r1 ?q "[?a, ?b]"
      "[SpotifyRequest ''p1'']"] e1 e2 e3 e4 k
  have "totalFound ?r = length (filter (keep (map (\<lambda>a. toLowerCase (a_name a)) [?sa, ?sb]) 1)
      (candidates lastfm_self_example [?sa, ?sb]))"
    by blast
  then have "length (filter (keep (map (\<lambda>a. toLowerCase (a_name a)) [?sa, ?sb]) 1)
      (candidates lastfm_self_example [?sa, ?sb])) = 2"
    by simp
  with e1 e2 e3 e4 k l show ?thesis
    by blast
qed

subsection \<open>The empty playlist sequence\<close>

text \<open>
  C4, as amended. An empty (or missing) playlist sequence is rejected by the route handler,
  with status 400 and before any request is sent. \<open>getRecommendationsFromMultiple\<close>
  itself has no such check: on the empty sequence it returns the empty result, and sends
  no request.
\<close>

theorem empty_playlists_rejected_by_route:
  "(\<not> nonEmptyArray (b_playlists b) \<and> \<not> nonEmptyArray (b_playlistUrls b) \<longrightarrow>
      post_recommendations_multiple sp fm b
        = (Status400 ''Either playlistUrls array or playlists array with weights is required'', []))
   \<and> getRecommendationsFromMultiple sp fm [] opts
        = (Inr \<lparr>seedArtists = [], recommendations = [], totalFound = 0, playlistWeights = []\<rparr>, [])"
  by (simp add: multiple_empty post_recommendations_multiple_def)

theorem empty_playlists_rejected_by_route_witness:
  "\<not> nonEmptyArray (b_playlists \<lparr>b_playlistUrls = None, b_playlists = Some [],
                                   b_limit = None, b_minFrequency = None\<rparr>)
   \<and> \<not> nonEmptyArray (b_playlistUrls \<lparr>b_playlistUrls = None, b_playlists = Some [],
                                        b_limit = None, b_minFrequency = None\<rparr>)
   \<and> post_recommendations_multiple spotify_example lastfm_example
        \<lparr>b_playlistUrls = None, b_playlists = Some [], b_limit = None, b_minFrequency = None\<rparr>
      = (Status400 ''Either playlistUrls array or playlists array with weights is required'', [])"
proof -
  let ?b = "\<lparr>b_playlistUrls = None, b_playlists = Some [], b_limit = None, b_minFrequency = None\<rparr>"
  have h: "\<not> nonEmptyArray (b_playlists ?b) \<and> \<not> nonEmptyArray (b_playlistUrls ?b)"
    by (simp add: nonEmptyArray_def)
  with empty_playlists_rejected_by_route [of ?b spotify_example lastfm_example no_options]
  show ?thesis
    by blast
qed

theorem empty_playlists_counterexample:
  "getRecommendationsFromMultiple spotify_example lastfm_example [] no_options
     = (Inr \<lparr>seedArtists = [], recommendations = [], totalFound = 0, playlistWeights = []\<rparr>, [])
   \<and> \<not> isl (fst (getRecommendationsFromMultiple spotify_example lastfm_example [] no_options))"
  by code_simp

end
